theory Spec2Isabelle
  imports Main "HOL-Library.Multiset"
begin

section \<open>Data model\<close>

text \<open>
  The router of \<^verbatim>\<open>api/posts\<close> works on two collections, \<^verbatim>\<open>Post\<close> and
  \<^verbatim>\<open>User\<close>. Their schemas live in \<^verbatim>\<open>models/\<close>; the fields below are the ones
  the router reads and writes. Ids are the string form of an ObjectId, which is what the
  router compares (\<^verbatim>\<open>post.user.toString() !== req.user.id\<close>); dates are
  milliseconds since the epoch. The text of a post or comment is whatever
  \<^verbatim>\<open>req.body.text\<close> was, \<open>None\<close> for \<^verbatim>\<open>undefined\<close>.
\<close>

type_synonym oid = string

record like =
  like_user :: oid

record comment =
  comment_id :: oid
  comment_user :: oid
  comment_text :: "string option"
  comment_name :: string
  comment_avatar :: string
  comment_date :: int

record post =
  post_id :: oid
  post_user :: oid
  post_text :: "string option"
  post_name :: string
  post_avatar :: string
  post_likes :: "like list"
  post_comments :: "comment list"
  post_date :: int

record user =
  user_id :: oid
  user_name :: string
  user_avatar :: string

text \<open>The database: both collections, in insertion order.\<close>

record db =
  posts :: "post list"
  users :: "user list"

text \<open>
  What the router sees of a request once the \<^verbatim>\<open>auth\<close> middleware has run:
  \<^verbatim>\<open>req.user.id\<close>, the two route parameters, and the field \<^verbatim>\<open>text\<close> of
  \<^verbatim>\<open>req.body\<close>, \<^verbatim>\<open>req.cookies\<close>, \<^verbatim>\<open>req.headers\<close> and
  \<^verbatim>\<open>req.query\<close>, each \<open>None\<close> when it is \<^verbatim>\<open>undefined\<close>. The handlers
  read \<^verbatim>\<open>req.body.text\<close> only; the validator reads them all.
\<close>

record request =
  req_user :: oid
  param_post_id :: oid
  param_comment_id :: oid
  body_text :: "string option"
  cookie_text :: "string option"
  header_text :: "string option"
  query_text :: "string option"

text \<open>
  What the libraries and the schemas contribute and the router does not compute:
  \<^verbatim>\<open>mongoose.Types.ObjectId.isValid\<close>, the id mongoose gives a new document or
  subdocument, the clock behind the schema's default date, and whether the schema of
  \<^verbatim>\<open>models/Post\<close> declares the text of a post, and of a comment, as required.
\<close>

record env =
  isValid :: "string \<Rightarrow> bool"
  new_id :: oid
  now :: int
  post_text_required :: bool
  comment_text_required :: bool

text \<open>The request objects in which \<^verbatim>\<open>check\<close> looks for a field, in its order.\<close>

datatype location = Body | Cookies | Headers | Params | Query

record verr =
  verr_msg :: string
  verr_path :: string
  verr_location :: location

datatype body =
    Msg string
  | Errors "verr list"
  | PostBody post
  | PostsBody "post list"
  | LikesBody "like list"
  | CommentsBody "comment list"

text \<open>
  \<open>Json st b\<close> is \<^verbatim>\<open>res.status(st).json(b)\<close> (status 200 when the handler
  calls \<^verbatim>\<open>res.json\<close> alone), \<open>Send st t\<close> is \<^verbatim>\<open>res.status(st).send(t)\<close>.
  \<open>Rejected\<close> is the handler's promise rejecting without a response written: the
  \<^verbatim>\<open>catch (error)\<close> blocks of the two POST handlers read \<^verbatim>\<open>err.message\<close>, and
  \<^verbatim>\<open>err\<close> is not bound there, so the catch block itself throws a ReferenceError
  before it reaches \<^verbatim>\<open>res.status(500)\<close>.
\<close>

datatype response =
    Json nat body
  | Send nat string
  | Rejected

datatype exn = TypeError | CastError | DuplicateKey | ValidationError

section \<open>Library operations\<close>

text \<open>\<^verbatim>\<open>x.prop\<close> on \<^verbatim>\<open>null\<close> throws a TypeError.\<close>

fun deref :: "'a option \<Rightarrow> exn + 'a" where
  "deref None = Inl TypeError"
| "deref (Some x) = Inr x"

text \<open>
  \<^verbatim>\<open>Model.findById(id)\<close>: the first document with that id, \<^verbatim>\<open>null\<close> when
  there is none; an id that is no ObjectId cannot be cast and the query rejects.
\<close>

definition findPostById :: "env \<Rightarrow> db \<Rightarrow> oid \<Rightarrow> exn + post option" where
  "findPostById e s i =
     (if \<not> isValid e i then Inl CastError
      else Inr (find (\<lambda>p. post_id p = i) (posts s)))"

definition findUserById :: "env \<Rightarrow> db \<Rightarrow> oid \<Rightarrow> exn + user option" where
  "findUserById e s i =
     (if \<not> isValid e i then Inl CastError
      else Inr (find (\<lambda>u. user_id u = i) (users s)))"

text \<open>
  \<^verbatim>\<open>doc.save()\<close> on a document that was read from the collection writes it back
  under its id; on a new document it inserts, and the unique index on the id refuses a
  duplicate.
\<close>

definition save :: "post \<Rightarrow> db \<Rightarrow> db" where
  "save p s = s\<lparr>posts := map (\<lambda>q. if post_id q = post_id p then p else q) (posts s)\<rparr>"

definition save_new :: "post \<Rightarrow> db \<Rightarrow> exn + db" where
  "save_new p s =
     (if post_id p \<in> set (map post_id (posts s)) then Inl DuplicateKey
      else Inr (s\<lparr>posts := posts s @ [p]\<rparr>))"

text \<open>
  Before it writes, \<^verbatim>\<open>doc.save()\<close> validates the paths that were set: a required
  string must be there and not empty.
\<close>

definition validate_required :: "bool \<Rightarrow> string option \<Rightarrow> exn + unit" where
  "validate_required required v =
     (if required \<and> (v = None \<or> v = Some []) then Inl ValidationError else Inr ())"

text \<open>
  \<^verbatim>\<open>Post.findByIdAndUpdate(id, {$set: {text: t}}, {new: true})\<close>: the updated
  document, or \<^verbatim>\<open>null\<close> and no write. A key whose value is \<^verbatim>\<open>undefined\<close> is
  dropped from the update, which then sets nothing; the schema's validators are not run.
\<close>

definition findByIdAndUpdate ::
  "env \<Rightarrow> db \<Rightarrow> oid \<Rightarrow> string option \<Rightarrow> exn + post option \<times> db" where
  "findByIdAndUpdate e s i t =
     (if \<not> isValid e i then Inl CastError
      else (case find (\<lambda>p. post_id p = i) (posts s) of
              None \<Rightarrow> Inr (None, s)
            | Some p \<Rightarrow>
                let p' = (case t of None \<Rightarrow> p | Some x \<Rightarrow> p\<lparr>post_text := Some x\<rparr>)
                in Inr (Some p', save p' s)))"

definition deleteOne :: "post \<Rightarrow> db \<Rightarrow> db" where
  "deleteOne p s = s\<lparr>posts := filter (\<lambda>q. post_id q \<noteq> post_id p) (posts s)\<rparr>"

text \<open>\<^verbatim>\<open>Post.find().sort({ date: -1 })\<close>: every post, latest date first.\<close>

fun insert_desc :: "post \<Rightarrow> post list \<Rightarrow> post list" where
  "insert_desc p [] = [p]"
| "insert_desc p (q # qs) =
     (if post_date q \<le> post_date p then p # q # qs else q # insert_desc p qs)"

fun sort_date_desc :: "post list \<Rightarrow> post list" where
  "sort_date_desc [] = []"
| "sort_date_desc (p # ps) = insert_desc p (sort_date_desc ps)"

text \<open>
  \<^verbatim>\<open>Array.prototype.indexOf\<close> (\<open>-1\<close> when absent) and
  \<^verbatim>\<open>Array.prototype.splice(start, 1)\<close>: a negative start counts from the end, a
  start beyond the end removes nothing.
\<close>

fun indexOf :: "'a list \<Rightarrow> 'a \<Rightarrow> int" where
  "indexOf [] x = -1"
| "indexOf (y # ys) x =
     (if y = x then 0 else (let i = indexOf ys x in if i < 0 then -1 else i + 1))"

definition splice1 :: "int \<Rightarrow> 'a list \<Rightarrow> 'a list" where
  "splice1 start xs =
     (let n = int (length xs);
          k = (if start < 0 then max (n + start) 0 else min start n)
      in take (nat k) xs @ drop (nat k + 1) xs)"

text \<open>
  \<^verbatim>\<open>Array.prototype.find\<close> hands back the element itself, so the assignment
  \<^verbatim>\<open>comment.text = ...\<close> writes into the array; the model keeps the position.
\<close>

fun findIndex :: "('a \<Rightarrow> bool) \<Rightarrow> 'a list \<Rightarrow> nat option" where
  "findIndex P [] = None"
| "findIndex P (x # xs) =
     (if P x then Some 0 else map_option Suc (findIndex P xs))"

section \<open>Middleware\<close>

text \<open>
  \<^verbatim>\<open>check('text', 'Text is required')\<close> selects the field in all five request
  objects. None of the routes declares a parameter \<^verbatim>\<open>text\<close>, so
  \<^verbatim>\<open>req.params.text\<close> is always \<^verbatim>\<open>undefined\<close>.
\<close>

definition selectFields :: "request \<Rightarrow> (location \<times> string option) list" where
  "selectFields r =
     [(Body, body_text r), (Cookies, cookie_text r), (Headers, header_text r),
      (Params, None), (Query, query_text r)]"

text \<open>
  The instances the chain runs on: those that have a value, all of which must pass; when
  no request object has the field, the first instance stands in for the error report.
\<close>

definition getData :: "request \<Rightarrow> (location \<times> string option) list" where
  "getData r =
     (let instances = selectFields r;
          withValue = filter (\<lambda>i. snd i \<noteq> None) instances
      in if withValue \<noteq> [] then withValue else take 1 instances)"

text \<open>\<^verbatim>\<open>isEmpty\<close> on the string form of the value; \<^verbatim>\<open>undefined\<close> reads as \<^verbatim>\<open>''\<close>.\<close>

fun isEmpty :: "string option \<Rightarrow> bool" where
  "isEmpty None = True"
| "isEmpty (Some t) = (t = [])"

text \<open>
  \<^verbatim>\<open>.not().isEmpty()\<close> on every instance, then \<^verbatim>\<open>validationResult(req)\<close>: one
  error for each instance that is empty. Of an error the model keeps message, path and
  location.
\<close>

definition validationResult :: "request \<Rightarrow> verr list" where
  "validationResult r =
     map (\<lambda>i. \<lparr>verr_msg = ''Text is required'', verr_path = ''text'',
                verr_location = fst i\<rparr>)
       (filter (\<lambda>i. isEmpty (snd i)) (getData r))"

text \<open>
  \<^verbatim>\<open>checkObjectId(idToCheck)\<close>: answers 400 itself, or calls \<^verbatim>\<open>next()\<close>.
\<close>

definition checkObjectId ::
  "env \<Rightarrow> oid \<Rightarrow> (db \<Rightarrow> response \<times> db) \<Rightarrow> db \<Rightarrow> response \<times> db" where
  "checkObjectId e i nxt s =
     (if \<not> isValid e i then (Json 400 (Msg ''Invalid ID''), s) else nxt s)"

text \<open>
  The two shapes of \<^verbatim>\<open>try { ... } catch\<close> in the router. In both, every throw
  comes before the first write, so the database is the one the handler started with.
\<close>

definition catch_err :: "db \<Rightarrow> exn + response \<times> db \<Rightarrow> response \<times> db" where
  "catch_err s r = (case r of Inl x \<Rightarrow> (Send 500 ''Server Error'', s) | Inr v \<Rightarrow> v)"

definition catch_error :: "db \<Rightarrow> exn + response \<times> db \<Rightarrow> response \<times> db" where
  "catch_error s r = (case r of Inl x \<Rightarrow> (Rejected, s) | Inr v \<Rightarrow> v)"

definition bind_exn :: "exn + 'a \<Rightarrow> ('a \<Rightarrow> exn + 'b) \<Rightarrow> exn + 'b" where
  "bind_exn m f = (case m of Inl x \<Rightarrow> Inl x | Inr v \<Rightarrow> f v)"

section \<open>The routes\<close>

text \<open>\<^verbatim>\<open>POST api/posts\<close>\<close>

definition create_post :: "env \<Rightarrow> request \<Rightarrow> db \<Rightarrow> response \<times> db" where
  "create_post e r s =
     (let errors = validationResult r in
      if errors \<noteq> [] then (Json 400 (Errors errors), s)
      else catch_error s
        (bind_exn (findUserById e s (req_user r)) (\<lambda>user.
         bind_exn (deref user) (\<lambda>u.
           let newPost = \<lparr>post_id = new_id e, post_user = req_user r,
                 post_text = body_text r, post_name = user_name u,
                 post_avatar = user_avatar u, post_likes = [], post_comments = [],
                 post_date = now e\<rparr>
           in bind_exn (validate_required (post_text_required e) (post_text newPost)) (\<lambda>_.
              bind_exn (save_new newPost s) (\<lambda>s'.
                Inr (Json 200 (PostBody newPost), s')))))))"

text \<open>\<^verbatim>\<open>GET api/posts\<close>\<close>

definition get_posts :: "env \<Rightarrow> request \<Rightarrow> db \<Rightarrow> response \<times> db" where
  "get_posts e r s =
     catch_err s (Inr (Json 200 (PostsBody (sort_date_desc (posts s))), s))"

text \<open>\<^verbatim>\<open>GET api/posts/:post_id\<close>\<close>

definition get_post :: "env \<Rightarrow> request \<Rightarrow> db \<Rightarrow> response \<times> db" where
  "get_post e r =
     checkObjectId e (param_post_id r) (\<lambda>s. catch_err s
       (bind_exn (findPostById e s (param_post_id r)) (\<lambda>post.
          case post of
            None \<Rightarrow> Inr (Json 404 (Msg ''Post not found''), s)
          | Some p \<Rightarrow> Inr (Json 200 (PostBody p), s))))"

text \<open>\<^verbatim>\<open>DELETE api/posts/:post_id\<close>\<close>

definition delete_post :: "env \<Rightarrow> request \<Rightarrow> db \<Rightarrow> response \<times> db" where
  "delete_post e r =
     checkObjectId e (param_post_id r) (\<lambda>s. catch_err s
       (bind_exn (findPostById e s (param_post_id r)) (\<lambda>post.
          case post of
            None \<Rightarrow> Inr (Json 404 (Msg ''Post not found''), s)
          | Some p \<Rightarrow>
              if post_user p \<noteq> req_user r
              then Inr (Json 401 (Msg ''User not authorized''), s)
              else Inr (Json 200 (Msg ''Post Removed''), deleteOne p s))))"

text \<open>\<^verbatim>\<open>PUT api/posts/:post_id\<close>\<close>

definition put_post :: "env \<Rightarrow> request \<Rightarrow> db \<Rightarrow> response \<times> db" where
  "put_post e r =
     checkObjectId e (param_post_id r) (\<lambda>s. catch_err s
       (let errors = validationResult r in
        if errors \<noteq> [] then Inr (Json 400 (Errors errors), s)
        else bind_exn (findByIdAndUpdate e s (param_post_id r) (body_text r))
          (\<lambda>(updatedPost, s').
             case updatedPost of
               None \<Rightarrow> Inr (Json 404 (Msg ''Post not found''), s')
             | Some p \<Rightarrow> Inr (Json 200 (PostBody p), s'))))"

text \<open>\<^verbatim>\<open>PUT api/posts/like/:post_id\<close>\<close>

definition like_post :: "env \<Rightarrow> request \<Rightarrow> db \<Rightarrow> response \<times> db" where
  "like_post e r =
     checkObjectId e (param_post_id r) (\<lambda>s. catch_err s
       (bind_exn (findPostById e s (param_post_id r)) (\<lambda>post.
        bind_exn (deref post) (\<lambda>p.
          if list_ex (\<lambda>l. like_user l = req_user r) (post_likes p)
          then Inr (Json 400 (Msg ''Post already liked''), s)
          else let p' = p\<lparr>post_likes := \<lparr>like_user = req_user r\<rparr> # post_likes p\<rparr>
               in Inr (Json 200 (LikesBody (post_likes p')), save p' s)))))"

text \<open>\<^verbatim>\<open>PUT api/posts/unlike/:post_id\<close>\<close>

definition unlike_post :: "env \<Rightarrow> request \<Rightarrow> db \<Rightarrow> response \<times> db" where
  "unlike_post e r =
     checkObjectId e (param_post_id r) (\<lambda>s. catch_err s
       (bind_exn (findPostById e s (param_post_id r)) (\<lambda>post.
        bind_exn (deref post) (\<lambda>p.
          if \<not> list_ex (\<lambda>l. like_user l = req_user r) (post_likes p)
          then Inr (Json 400 (Msg ''Post has not yet been liked''), s)
          else let removeIndex = indexOf (map like_user (post_likes p)) (req_user r);
                   p' = p\<lparr>post_likes := splice1 removeIndex (post_likes p)\<rparr>
               in Inr (Json 200 (LikesBody (post_likes p')), save p' s)))))"

text \<open>\<^verbatim>\<open>POST api/posts/comment/:post_id\<close>\<close>

definition add_comment :: "env \<Rightarrow> request \<Rightarrow> db \<Rightarrow> response \<times> db" where
  "add_comment e r s =
     (let errors = validationResult r in
      if errors \<noteq> [] then (Json 400 (Errors errors), s)
      else catch_error s
        (bind_exn (findUserById e s (req_user r)) (\<lambda>user.
         bind_exn (findPostById e s (param_post_id r)) (\<lambda>post.
         bind_exn (deref user) (\<lambda>u.
         bind_exn (deref post) (\<lambda>p.
           let newComment = \<lparr>comment_id = new_id e, comment_user = req_user r,
                 comment_text = body_text r, comment_name = user_name u,
                 comment_avatar = user_avatar u, comment_date = now e\<rparr>;
               p' = p\<lparr>post_comments := newComment # post_comments p\<rparr>
           in bind_exn (validate_required (comment_text_required e) (comment_text newComment))
                (\<lambda>_. Inr (Json 200 (CommentsBody (post_comments p')), save p' s))))))))"

text \<open>
  \<^verbatim>\<open>DELETE api/posts/comment/:post_id/:comment_id\<close>. The handler reads
  \<^verbatim>\<open>post.comments\<close> before it tests \<^verbatim>\<open>!post\<close>.
\<close>

definition delete_comment :: "env \<Rightarrow> request \<Rightarrow> db \<Rightarrow> response \<times> db" where
  "delete_comment e r =
     checkObjectId e (param_post_id r) (
     checkObjectId e (param_comment_id r) (\<lambda>s. catch_err s
       (bind_exn (findPostById e s (param_post_id r)) (\<lambda>post.
        bind_exn (deref post) (\<lambda>p.
          let comment = find (\<lambda>c. comment_id c = param_comment_id r) (post_comments p) in
          if post = None then Inr (Json 404 (Msg ''Post does not exist''), s)
          else case comment of
            None \<Rightarrow> Inr (Json 404 (Msg ''Comment does not exist''), s)
          | Some c \<Rightarrow>
              if comment_user c \<noteq> req_user r
              then Inr (Json 401 (Msg ''User not authorized''), s)
              else let p' = p\<lparr>post_comments :=
                         filter (\<lambda>c. comment_id c \<noteq> param_comment_id r) (post_comments p)\<rparr>
                   in Inr (Json 200 (CommentsBody (post_comments p')), save p' s))))))"

text \<open>\<^verbatim>\<open>PUT api/posts/comment/:post_id/:comment_id\<close>\<close>

definition put_comment :: "env \<Rightarrow> request \<Rightarrow> db \<Rightarrow> response \<times> db" where
  "put_comment e r =
     checkObjectId e (param_post_id r) (
     checkObjectId e (param_comment_id r) (\<lambda>s.
       let errors = validationResult r in
       if errors \<noteq> [] then (Json 400 (Errors errors), s)
       else catch_err s
       (bind_exn (findPostById e s (param_post_id r)) (\<lambda>post.
        bind_exn (deref post) (\<lambda>p.
          let comment = findIndex (\<lambda>c. comment_id c = param_comment_id r) (post_comments p) in
          if post = None then Inr (Json 404 (Msg ''Post does not exist''), s)
          else case comment of
            None \<Rightarrow> Inr (Json 404 (Msg ''Comment does not exist''), s)
          | Some i \<Rightarrow>
              if comment_user (post_comments p ! i) \<noteq> req_user r
              then Inr (Json 401 (Msg ''User not authorized''), s)
              else let p' = p\<lparr>post_comments := (post_comments p)
                         [i := (post_comments p ! i)\<lparr>comment_text := body_text r\<rparr>]\<rparr>
                   in bind_exn (validate_required (comment_text_required e) (body_text r))
                        (\<lambda>_. Inr (Json 200 (CommentsBody (post_comments p')), save p' s)))))))"

text \<open>The router: one constructor per route, in the order of the file.\<close>

datatype route =
    CreatePost | GetPosts | GetPost | DeletePost | PutPost
  | LikePost | UnlikePost | AddComment | DeleteComment | PutComment

fun handle :: "route \<Rightarrow> env \<Rightarrow> request \<Rightarrow> db \<Rightarrow> response \<times> db" where
  "handle CreatePost = create_post"
| "handle GetPosts = get_posts"
| "handle GetPost = get_post"
| "handle DeletePost = delete_post"
| "handle PutPost = put_post"
| "handle LikePost = like_post"
| "handle UnlikePost = unlike_post"
| "handle AddComment = add_comment"
| "handle DeleteComment = delete_comment"
| "handle PutComment = put_comment"

text \<open>The stored post a request addresses.\<close>

definition lookup :: "db \<Rightarrow> oid \<Rightarrow> post option" where
  "lookup s i = find (\<lambda>p. post_id p = i) (posts s)"

section \<open>The likes invariant and sample data\<close>

definition likes_unique :: "db \<Rightarrow> bool" where
  "likes_unique s = list_all (\<lambda>p. distinct (map like_user (post_likes p))) (posts s)"

definition isHex24 :: "string \<Rightarrow> bool" where
  "isHex24 i = (length i = 24 \<and> list_all (\<lambda>c. c \<in> set ''0123456789abcdef'') i)"

definition alice :: user where
  "alice = \<lparr>user_id = ''0000000000000000000000a1'', user_name = ''Alice'', user_avatar = ''a.png''\<rparr>"

definition bob :: user where
  "bob = \<lparr>user_id = ''0000000000000000000000b2'', user_name = ''Bob'', user_avatar = ''b.png''\<rparr>"

definition comment1 :: comment where
  "comment1 = \<lparr>comment_id = ''0000000000000000000000c1'', comment_user = user_id alice,
     comment_text = Some ''first'', comment_name = ''Alice'', comment_avatar = ''a.png'',
     comment_date = 1100\<rparr>"

definition post1 :: post where
  "post1 = \<lparr>post_id = ''0000000000000000000000d1'', post_user = user_id alice,
     post_text = Some ''hello'', post_name = ''Alice'', post_avatar = ''a.png'',
     post_likes = [\<lparr>like_user = user_id alice\<rparr>], post_comments = [comment1],
     post_date = 1000\<rparr>"

definition db1 :: db where
  "db1 = \<lparr>posts = [post1], users = [alice, bob]\<rparr>"

definition env1 :: env where
  "env1 = \<lparr>isValid = isHex24, new_id = ''0000000000000000000000e1'', now = 2000,
     post_text_required = True, comment_text_required = True\<rparr>"


section \<open>Lists, lookups and the sort\<close>

lemma find_post_id: "find (\<lambda>p. post_id p = i) ps = Some p \<Longrightarrow> post_id p = i \<and> p \<in> set ps"
  by (induction ps) (auto split: if_splits)

lemma find_replace_same:
  "post_id p' = i \<Longrightarrow> find (\<lambda>p. post_id p = i) ps = Some p \<Longrightarrow>
   find (\<lambda>p. post_id p = i) (map (\<lambda>q. if post_id q = i then p' else q) ps) = Some p'"
  by (induction ps) (auto split: if_splits)

lemma find_replace_other:
  "post_id p' = i \<Longrightarrow> j \<noteq> i \<Longrightarrow>
   find (\<lambda>p. post_id p = j) (map (\<lambda>q. if post_id q = i then p' else q) ps)
     = find (\<lambda>p. post_id p = j) ps"
  by (induction ps) auto

lemma lookup_save_same:
  "lookup s i = Some p \<Longrightarrow> post_id p' = post_id p \<Longrightarrow> lookup (save p' s) i = Some p'"
  using find_post_id[of i "posts s" p] find_replace_same[of p' i "posts s" p]
  by (simp add: lookup_def save_def)

lemma lookup_save_other:
  "j \<noteq> post_id p' \<Longrightarrow> lookup (save p' s) j = lookup s j"
  using find_replace_other[of p' "post_id p'" j "posts s"]
  by (simp add: lookup_def save_def)

lemma users_save: "users (save p s) = users s"
  by (simp add: save_def)

lemma mset_insert_desc: "mset (insert_desc p ps) = add_mset p (mset ps)"
  by (induction ps) auto

lemma mset_sort_date_desc: "mset (sort_date_desc ps) = mset ps"
  by (induction ps) (auto simp: mset_insert_desc)

lemma set_insert_desc: "set (insert_desc p ps) = insert p (set ps)"
  by (induction ps) auto

lemma sorted_insert_desc:
  "sorted_wrt (\<lambda>a b. post_date b \<le> post_date a) ps \<Longrightarrow>
   sorted_wrt (\<lambda>a b. post_date b \<le> post_date a) (insert_desc p ps)"
  by (induction ps) (auto simp: set_insert_desc)

lemma sorted_sort_date_desc:
  "sorted_wrt (\<lambda>a b. post_date b \<le> post_date a) (sort_date_desc ps)"
  by (induction ps) (auto simp: sorted_insert_desc)

lemma indexOf_takeWhile:
  "x \<in> set xs \<Longrightarrow> indexOf xs x = int (length (takeWhile (\<lambda>y. y \<noteq> x) xs))"
  by (induction xs) (auto simp: Let_def)

lemma indexOf_absent: "x \<notin> set xs \<Longrightarrow> indexOf xs x = -1"
  by (induction xs) (auto simp: Let_def)

lemma splice1_in_range:
  "k \<le> length xs \<Longrightarrow> splice1 (int k) xs = take k xs @ drop (Suc k) xs"
  by (simp add: splice1_def Let_def min_def)

lemma list_ex_likes: "list_ex (\<lambda>l. like_user l = u) ls \<longleftrightarrow> u \<in> set (map like_user ls)"
  by (auto simp: list_ex_iff)

lemma takeWhile_map_len: "length (takeWhile (\<lambda>y. y \<noteq> u) (map f ls)) = length (takeWhile (\<lambda>l. f l \<noteq> u) ls)"
  by (induction ls) auto

lemma unlike_splice:
  assumes "u \<in> set (map like_user ls)"
  shows "splice1 (indexOf (map like_user ls) u) ls
           = takeWhile (\<lambda>l. like_user l \<noteq> u) ls @ tl (dropWhile (\<lambda>l. like_user l \<noteq> u) ls)"
proof -
  let ?k = "length (takeWhile (\<lambda>l. like_user l \<noteq> u) ls)"
  have k: "indexOf (map like_user ls) u = int ?k"
    using indexOf_takeWhile[OF assms] by (simp add: takeWhile_map_len)
  have le: "?k \<le> length ls" by (rule length_takeWhile_le)
  have "take ?k ls = takeWhile (\<lambda>l. like_user l \<noteq> u) ls"
    by (induction ls) auto
  moreover have "drop (Suc ?k) ls = tl (dropWhile (\<lambda>l. like_user l \<noteq> u) ls)"
    by (induction ls) auto
  ultimately show ?thesis using k splice1_in_range[OF le] by simp
qed

lemma remove_first_props:
  assumes "u \<in> set (map like_user ls)"
  defines "ls' \<equiv> takeWhile (\<lambda>l. like_user l \<noteq> u) ls @ tl (dropWhile (\<lambda>l. like_user l \<noteq> u) ls)"
  shows "mset ls = add_mset \<lparr>like_user = u\<rparr> (mset ls')"
    and "filter (\<lambda>l. like_user l \<noteq> u) ls' = filter (\<lambda>l. like_user l \<noteq> u) ls"
    and "Suc (length ls') = length ls"
  using assms(1) unfolding ls'_def
  by (induction ls) auto

lemma validation_ok:
  "validationResult r = [] \<longleftrightarrow>
     body_text r \<noteq> Some [] \<and> cookie_text r \<noteq> Some [] \<and> header_text r \<noteq> Some []
     \<and> query_text r \<noteq> Some []
     \<and> \<not> (body_text r = None \<and> cookie_text r = None \<and> header_text r = None
            \<and> query_text r = None)"
  by (cases "body_text r"; cases "cookie_text r"; cases "header_text r"; cases "query_text r")
     (simp_all add: validationResult_def getData_def selectFields_def)

lemma validation_body:
  "validationResult r = [] \<Longrightarrow> body_text r = None \<or> (\<exists>t. body_text r = Some t \<and> t \<noteq> [])"
  by (cases "body_text r") (auto simp: validation_ok)

lemma validation_errors:
  "list_all (\<lambda>x. verr_msg x = ''Text is required'' \<and> verr_path x = ''text'')
     (validationResult r)"
  by (simp add: validationResult_def list_all_iff)

lemma validation_missing:
  "body_text r = None \<Longrightarrow> cookie_text r = None \<Longrightarrow> header_text r = None \<Longrightarrow>
   query_text r = None \<Longrightarrow>
   validationResult r
     = [\<lparr>verr_msg = ''Text is required'', verr_path = ''text'', verr_location = Body\<rparr>]"
  by (simp add: validationResult_def getData_def selectFields_def)

lemma findIndex_Some:
  "findIndex P xs = Some i \<Longrightarrow> i < length xs \<and> P (xs ! i) \<and> (\<forall>j<i. \<not> P (xs ! j))"
proof (induction xs arbitrary: i)
  case Nil
  then show ?case by simp
next
  case (Cons x xs)
  show ?case
  proof (cases "P x")
    case True
    with Cons.prems show ?thesis by simp
  next
    case False
    with Cons.prems obtain k where k: "findIndex P xs = Some k" "i = Suc k" by auto
    from Cons.IH[OF k(1)] False k(2) show ?thesis
      by (auto simp: nth_Cons split: nat.splits)
  qed
qed

lemma findIndex_nth: "find P xs = Some x \<Longrightarrow> \<exists>i. findIndex P xs = Some i \<and> xs ! i = x"
  by (induction xs) (auto split: if_splits)


section \<open>The routes on a stored post\<close>

lemma deref_case: "deref x = (case x of None \<Rightarrow> Inl TypeError | Some v \<Rightarrow> Inr v)"
  by (cases x) simp_all

lemmas route_defs = deref_case checkObjectId_def catch_err_def catch_error_def bind_exn_def
  findPostById_def findUserById_def findByIdAndUpdate_def save_new_def
  validate_required_def Let_def

lemmas sample_defs = env1_def db1_def post1_def comment1_def alice_def bob_def isHex24_def

lemmas validation_defs = validationResult_def getData_def selectFields_def

lemma like_found:
  assumes "isValid e (param_post_id r)" "lookup s (param_post_id r) = Some p"
  shows "like_post e r s =
     (if req_user r \<in> set (map like_user (post_likes p))
      then (Json 400 (Msg ''Post already liked''), s)
      else (Json 200 (LikesBody (\<lparr>like_user = req_user r\<rparr> # post_likes p)),
            save (p\<lparr>post_likes := \<lparr>like_user = req_user r\<rparr> # post_likes p\<rparr>) s))"
  using assms by (simp add: like_post_def route_defs lookup_def list_ex_likes)

lemma unlike_found:
  assumes "isValid e (param_post_id r)" "lookup s (param_post_id r) = Some p"
  shows "unlike_post e r s =
     (if req_user r \<notin> set (map like_user (post_likes p))
      then (Json 400 (Msg ''Post has not yet been liked''), s)
      else (Json 200 (LikesBody (splice1 (indexOf (map like_user (post_likes p)) (req_user r)) (post_likes p))),
            save (p\<lparr>post_likes := splice1 (indexOf (map like_user (post_likes p)) (req_user r)) (post_likes p)\<rparr>) s))"
  using assms by (simp add: unlike_post_def route_defs lookup_def list_ex_likes)

lemma delete_post_found:
  assumes "isValid e (param_post_id r)" "lookup s (param_post_id r) = Some p"
  shows "delete_post e r s =
     (if post_user p \<noteq> req_user r then (Json 401 (Msg ''User not authorized''), s)
      else (Json 200 (Msg ''Post Removed''), deleteOne p s))"
  using assms by (simp add: delete_post_def route_defs lookup_def)

lemma delete_post_missing:
  assumes "isValid e (param_post_id r)" "lookup s (param_post_id r) = None"
  shows "delete_post e r s = (Json 404 (Msg ''Post not found''), s)"
  using assms by (simp add: delete_post_def route_defs lookup_def)

lemma put_post_found:
  assumes "isValid e (param_post_id r)" "lookup s (param_post_id r) = Some p"
    and "validationResult r = []"
  shows "put_post e r s =
     (case body_text r of
        None \<Rightarrow> (Json 200 (PostBody p), save p s)
      | Some t \<Rightarrow> (Json 200 (PostBody (p\<lparr>post_text := Some t\<rparr>)),
                   save (p\<lparr>post_text := Some t\<rparr>) s))"
  using assms
  by (simp add: put_post_def route_defs lookup_def split: option.splits)

lemma like_post_missing:
  assumes "isValid e (param_post_id r)" "lookup s (param_post_id r) = None"
  shows "like_post e r s = (Send 500 ''Server Error'', s)"
  using assms by (simp add: like_post_def route_defs lookup_def)

lemma unlike_post_missing:
  assumes "isValid e (param_post_id r)" "lookup s (param_post_id r) = None"
  shows "unlike_post e r s = (Send 500 ''Server Error'', s)"
  using assms by (simp add: unlike_post_def route_defs lookup_def)

lemma add_comment_missing:
  assumes "validationResult r = []" "lookup s (param_post_id r) = None"
  shows "add_comment e r s = (Rejected, s)"
  using assms by (simp add: add_comment_def route_defs lookup_def split: option.splits)

lemma add_comment_invalid:
  assumes "\<not> isValid e (param_post_id r)"
  shows "add_comment e r s =
     (if validationResult r \<noteq> [] then (Json 400 (Errors (validationResult r)), s)
      else (Rejected, s))"
  using assms by (simp add: add_comment_def route_defs split: option.splits)

lemma delete_comment_found:
  assumes "isValid e (param_post_id r)" "isValid e (param_comment_id r)"
    and "lookup s (param_post_id r) = Some p"
  shows "delete_comment e r s =
     (case find (\<lambda>c. comment_id c = param_comment_id r) (post_comments p) of
        None \<Rightarrow> (Json 404 (Msg ''Comment does not exist''), s)
      | Some c \<Rightarrow>
          if comment_user c \<noteq> req_user r then (Json 401 (Msg ''User not authorized''), s)
          else (Json 200 (CommentsBody
                  (filter (\<lambda>c. comment_id c \<noteq> param_comment_id r) (post_comments p))),
                save (p\<lparr>post_comments :=
                  filter (\<lambda>c. comment_id c \<noteq> param_comment_id r) (post_comments p)\<rparr>) s))"
  using assms by (simp add: delete_comment_def route_defs lookup_def split: option.splits)

lemma delete_comment_missing_post:
  assumes "isValid e (param_post_id r)" "isValid e (param_comment_id r)"
    and "lookup s (param_post_id r) = None"
  shows "delete_comment e r s = (Send 500 ''Server Error'', s)"
  using assms by (simp add: delete_comment_def route_defs lookup_def)

lemma put_comment_found:
  assumes "isValid e (param_post_id r)" "isValid e (param_comment_id r)"
    and "lookup s (param_post_id r) = Some p" and "validationResult r = []"
  shows "put_comment e r s =
     (case findIndex (\<lambda>c. comment_id c = param_comment_id r) (post_comments p) of
        None \<Rightarrow> (Json 404 (Msg ''Comment does not exist''), s)
      | Some i \<Rightarrow>
          if comment_user (post_comments p ! i) \<noteq> req_user r
          then (Json 401 (Msg ''User not authorized''), s)
          else if comment_text_required e \<and> body_text r = None
          then (Send 500 ''Server Error'', s)
          else (Json 200 (CommentsBody ((post_comments p)
                    [i := (post_comments p ! i)\<lparr>comment_text := body_text r\<rparr>])),
                save (p\<lparr>post_comments := (post_comments p)
                    [i := (post_comments p ! i)\<lparr>comment_text := body_text r\<rparr>]\<rparr>) s))"
  using assms validation_body[of r]
  by (auto simp: put_comment_def route_defs lookup_def split: option.splits)

lemma put_comment_invalid_text:
  assumes "isValid e (param_post_id r)" "isValid e (param_comment_id r)"
    and "validationResult r \<noteq> []"
  shows "put_comment e r s = (Json 400 (Errors (validationResult r)), s)"
  using assms by (simp add: put_comment_def route_defs)





lemma invalid_post_id:
  assumes "\<not> isValid e (param_post_id r)"
  shows "get_post e r s = (Json 400 (Msg ''Invalid ID''), s)"
    and "delete_post e r s = (Json 400 (Msg ''Invalid ID''), s)"
    and "put_post e r s = (Json 400 (Msg ''Invalid ID''), s)"
    and "like_post e r s = (Json 400 (Msg ''Invalid ID''), s)"
    and "unlike_post e r s = (Json 400 (Msg ''Invalid ID''), s)"
    and "delete_comment e r s = (Json 400 (Msg ''Invalid ID''), s)"
    and "put_comment e r s = (Json 400 (Msg ''Invalid ID''), s)"
  using assms
  by (simp_all add: get_post_def delete_post_def put_post_def like_post_def unlike_post_def
      delete_comment_def put_comment_def checkObjectId_def)

lemma invalid_comment_id:
  assumes "\<not> isValid e (param_comment_id r)"
  shows "delete_comment e r s = (Json 400 (Msg ''Invalid ID''), s)"
    and "put_comment e r s = (Json 400 (Msg ''Invalid ID''), s)"
  using assms
  by (simp_all add: delete_comment_def put_comment_def checkObjectId_def)

lemma like_success:
  "like_post e r s = (Json 200 b, s') \<Longrightarrow>
   \<exists>p ls. lookup s (param_post_id r) = Some p \<and> s' = save (p\<lparr>post_likes := ls\<rparr>) s"
  by (auto simp: like_post_def route_defs lookup_def split: option.splits if_splits)

lemma unlike_success:
  "unlike_post e r s = (Json 200 b, s') \<Longrightarrow>
   \<exists>p ls. lookup s (param_post_id r) = Some p \<and> s' = save (p\<lparr>post_likes := ls\<rparr>) s"
  by (auto simp: unlike_post_def route_defs lookup_def split: option.splits if_splits)

lemma add_comment_success:
  "add_comment e r s = (Json 200 b, s') \<Longrightarrow>
   \<exists>p cs. lookup s (param_post_id r) = Some p \<and> s' = save (p\<lparr>post_comments := cs\<rparr>) s"
  by (auto simp: add_comment_def route_defs lookup_def split: option.splits if_splits)

lemma delete_comment_success:
  "delete_comment e r s = (Json 200 b, s') \<Longrightarrow>
   \<exists>p cs. lookup s (param_post_id r) = Some p \<and> s' = save (p\<lparr>post_comments := cs\<rparr>) s"
  by (auto simp: delete_comment_def route_defs lookup_def split: option.splits if_splits)

lemma put_comment_success:
  assumes "put_comment e r s = (Json 200 b, s')"
  shows "\<exists>p i. lookup s (param_post_id r) = Some p
     \<and> findIndex (\<lambda>c. comment_id c = param_comment_id r) (post_comments p) = Some i
     \<and> comment_user (post_comments p ! i) = req_user r
     \<and> (comment_text_required e \<longrightarrow> (\<exists>t. body_text r = Some t \<and> t \<noteq> []))
     \<and> s' = save (p\<lparr>post_comments :=
               (post_comments p)[i := (post_comments p ! i)\<lparr>comment_text := body_text r\<rparr>]\<rparr>) s"
proof -
  have v: "isValid e (param_post_id r)" "isValid e (param_comment_id r)"
    using assms invalid_post_id(7)[of e r s] invalid_comment_id(2)[of e r s] by auto
  have ok: "validationResult r = []"
    using assms put_comment_invalid_text[OF v, of s] by auto
  obtain p where p: "lookup s (param_post_id r) = Some p"
    using assms v ok
    by (cases "lookup s (param_post_id r)")
       (auto simp: put_comment_def route_defs lookup_def)
  show ?thesis
    using assms put_comment_found[OF v p ok] p validation_body[OF ok]
    by (auto split: option.splits if_splits)
qed

lemma frame_likes:
  assumes "lookup s i = Some p"
  shows "\<exists>p'. lookup (save (p\<lparr>post_likes := ls\<rparr>) s) i = Some p'
     \<and> post_text p' = post_text p \<and> post_name p' = post_name p
     \<and> post_avatar p' = post_avatar p \<and> post_user p' = post_user p
     \<and> post_date p' = post_date p \<and> post_id p' = post_id p
     \<and> post_comments p' = post_comments p"
  using lookup_save_same[OF assms, of "p\<lparr>post_likes := ls\<rparr>"] by simp

lemma frame_comments:
  assumes "lookup s i = Some p"
  shows "\<exists>p'. lookup (save (p\<lparr>post_comments := cs\<rparr>) s) i = Some p'
     \<and> post_text p' = post_text p \<and> post_name p' = post_name p
     \<and> post_avatar p' = post_avatar p \<and> post_user p' = post_user p
     \<and> post_date p' = post_date p \<and> post_id p' = post_id p
     \<and> post_likes p' = post_likes p"
  using lookup_save_same[OF assms, of "p\<lparr>post_comments := cs\<rparr>"] by simp

section \<open>Every route keeps the likes of a post distinct\<close>

lemma likes_unique_find:
  "likes_unique s \<Longrightarrow> find (\<lambda>p. post_id p = i) (posts s) = Some p \<Longrightarrow>
   distinct (map like_user (post_likes p))"
  using find_post_id[of i "posts s" p] by (auto simp: likes_unique_def list_all_iff)

lemma likes_unique_save:
  "likes_unique s \<Longrightarrow> distinct (map like_user (post_likes p)) \<Longrightarrow> likes_unique (save p s)"
  by (auto simp: likes_unique_def save_def list_all_iff)

lemma likes_unique_deleteOne: "likes_unique s \<Longrightarrow> likes_unique (deleteOne p s)"
  by (auto simp: likes_unique_def deleteOne_def list_all_iff)

lemma distinct_map_splice1: "distinct (map f xs) \<Longrightarrow> distinct (map f (splice1 k xs))"
proof -
  assume d: "distinct (map f xs)"
  have "distinct (map f (take m xs @ drop (Suc m) xs))" for m
  proof -
    have "map f xs = map f (take m xs) @ map f (drop m xs)"
      by (metis append_take_drop_id map_append)
    then have d2: "distinct (map f (take m xs) @ map f (drop m xs))" using d by simp
    have sub: "set (map f (drop (Suc m) xs)) \<subseteq> set (map f (drop m xs))"
      by (metis drop_Suc image_mono list.set_map set_drop_subset tl_drop drop_drop plus_1_eq_Suc)
    have d3: "distinct (map f (drop (Suc m) xs))"
      using d by (simp add: distinct_drop flip: drop_map)
    show ?thesis using d2 sub d3 by auto
  qed
  then show ?thesis by (simp add: splice1_def Let_def)
qed

lemma inv_create: "likes_unique s \<Longrightarrow> likes_unique (snd (create_post e r s))"
  by (auto simp: create_post_def route_defs likes_unique_def split: option.splits sum.splits)

lemma inv_get_posts: "likes_unique s \<Longrightarrow> likes_unique (snd (get_posts e r s))"
  by (simp add: get_posts_def catch_err_def)

lemma inv_get_post: "likes_unique s \<Longrightarrow> likes_unique (snd (get_post e r s))"
  by (auto simp: get_post_def route_defs split: option.splits)

lemma inv_delete_post: "likes_unique s \<Longrightarrow> likes_unique (snd (delete_post e r s))"
  by (auto simp: delete_post_def route_defs likes_unique_deleteOne split: option.splits)

lemma inv_put_post: "likes_unique s \<Longrightarrow> likes_unique (snd (put_post e r s))"
  by (auto simp: put_post_def route_defs split: option.splits
      intro!: likes_unique_save dest: likes_unique_find)

lemma inv_like: "likes_unique s \<Longrightarrow> likes_unique (snd (like_post e r s))"
  by (auto simp: like_post_def route_defs list_ex_likes split: option.splits
      intro!: likes_unique_save dest: likes_unique_find)

lemma inv_unlike: "likes_unique s \<Longrightarrow> likes_unique (snd (unlike_post e r s))"
  by (auto simp: unlike_post_def route_defs list_ex_likes split: option.splits
      intro!: likes_unique_save distinct_map_splice1 dest: likes_unique_find)

lemma inv_add_comment: "likes_unique s \<Longrightarrow> likes_unique (snd (add_comment e r s))"
  by (auto simp: add_comment_def route_defs split: option.splits
      intro!: likes_unique_save dest: likes_unique_find)

lemma inv_delete_comment: "likes_unique s \<Longrightarrow> likes_unique (snd (delete_comment e r s))"
  by (auto simp: delete_comment_def route_defs split: option.splits
      intro!: likes_unique_save dest: likes_unique_find)

lemma inv_put_comment: "likes_unique s \<Longrightarrow> likes_unique (snd (put_comment e r s))"
  by (auto simp: put_comment_def route_defs split: option.splits
      intro!: likes_unique_save dest: likes_unique_find)

lemma likes_unique_handle: "likes_unique s \<Longrightarrow> likes_unique (snd (handle rt e r s))"
  by (cases rt)
     (simp_all add: inv_create inv_get_posts inv_get_post inv_delete_post inv_put_post
        inv_like inv_unlike inv_add_comment inv_delete_comment inv_put_comment)

section \<open>The claims\<close>

text \<open>
  Claim C1: a requester who does not own a post gets 401 from
  \<^verbatim>\<open>DELETE /posts/:id\<close> and from \<^verbatim>\<open>PUT /posts/:id\<close>, and the post stays as
  it was. The DELETE handler compares \<^verbatim>\<open>post.user\<close> with \<^verbatim>\<open>req.user.id\<close>
  (lemma \<open>delete_post_found\<close>); the PUT handler has no such comparison
  (lemma \<open>put_post_found\<close>). Run on the sample database: Bob edits Alice's post, the
  answer is 200 with the edited post, and the stored text has changed.
\<close>

theorem C1_put_post_by_non_owner:
  "lookup db1 (post_id post1) = Some post1 \<and> post_user post1 \<noteq> user_id bob
   \<and> put_post env1 \<lparr>req_user = user_id bob, param_post_id = post_id post1,
        param_comment_id = [], body_text = Some ''edited'',
        cookie_text = None, header_text = None, query_text = None\<rparr> db1
     = (Json 200 (PostBody (post1\<lparr>post_text := Some ''edited''\<rparr>)),
        db1\<lparr>posts := [post1\<lparr>post_text := Some ''edited''\<rparr>]\<rparr>)"
  by (simp add: put_post_def route_defs lookup_def validation_defs save_def sample_defs)

text \<open>
  Claim C2: a post's likes hold at most one entry per user. Every route of the router
  keeps the likes of every stored post pairwise distinct by user; and on a stored post
  \<^verbatim>\<open>PUT /posts/like/:id\<close> answers 400 \<^verbatim>\<open>Post already liked\<close> and writes
  nothing when the requester is among the likes, and otherwise puts exactly one like of
  the requester in front of the list and stores it.
\<close>

theorem C2_like_at_most_once:
  "(likes_unique s \<longrightarrow> likes_unique (snd (handle rt e r s)))
   \<and> (isValid e (param_post_id r) \<and> lookup s (param_post_id r) = Some p \<longrightarrow>
        (req_user r \<in> set (map like_user (post_likes p)) \<longrightarrow>
           like_post e r s = (Json 400 (Msg ''Post already liked''), s))
      \<and> (req_user r \<notin> set (map like_user (post_likes p)) \<longrightarrow>
           like_post e r s
             = (Json 200 (LikesBody (\<lparr>like_user = req_user r\<rparr> # post_likes p)),
                save (p\<lparr>post_likes := \<lparr>like_user = req_user r\<rparr> # post_likes p\<rparr>) s)
           \<and> lookup (snd (like_post e r s)) (param_post_id r)
             = Some (p\<lparr>post_likes := \<lparr>like_user = req_user r\<rparr> # post_likes p\<rparr>)))"
proof -
  have inv: "likes_unique s \<longrightarrow> likes_unique (snd (handle rt e r s))"
    by (simp add: likes_unique_handle)
  have found: "like_post e r s =
       (if req_user r \<in> set (map like_user (post_likes p))
        then (Json 400 (Msg ''Post already liked''), s)
        else (Json 200 (LikesBody (\<lparr>like_user = req_user r\<rparr> # post_likes p)),
              save (p\<lparr>post_likes := \<lparr>like_user = req_user r\<rparr> # post_likes p\<rparr>) s))"
    if "isValid e (param_post_id r)" "lookup s (param_post_id r) = Some p"
    using that by (rule like_found)
  have stored: "lookup (save (p\<lparr>post_likes := ls\<rparr>) s) (param_post_id r) = Some (p\<lparr>post_likes := ls\<rparr>)"
    if "lookup s (param_post_id r) = Some p" for ls
    using that by (simp add: lookup_save_same)
  show ?thesis using inv found stored by simp
qed

theorem C2_like_at_most_once_witness:
  "likes_unique db1 \<and> isValid env1 (post_id post1) \<and> lookup db1 (post_id post1) = Some post1
   \<and> like_post env1 \<lparr>req_user = user_id alice, param_post_id = post_id post1,
        param_comment_id = [], body_text = None,
        cookie_text = None, header_text = None, query_text = None\<rparr> db1 = (Json 400 (Msg ''Post already liked''), db1)
   \<and> like_post env1 \<lparr>req_user = user_id bob, param_post_id = post_id post1,
        param_comment_id = [], body_text = None,
        cookie_text = None, header_text = None, query_text = None\<rparr> db1
      = (Json 200 (LikesBody [\<lparr>like_user = user_id bob\<rparr>, \<lparr>like_user = user_id alice\<rparr>]),
         db1\<lparr>posts := [post1\<lparr>post_likes := [\<lparr>like_user = user_id bob\<rparr>, \<lparr>like_user = user_id alice\<rparr>]\<rparr>]\<rparr>)
   \<and> likes_unique (snd (handle LikePost env1 \<lparr>req_user = user_id bob, param_post_id = post_id post1,
        param_comment_id = [], body_text = None,
        cookie_text = None, header_text = None, query_text = None\<rparr> db1))"
proof -
  have u: "likes_unique db1" by (simp add: likes_unique_def sample_defs)
  have v: "isValid env1 (post_id post1)" by (simp add: sample_defs)
  have l: "lookup db1 (post_id post1) = Some post1" by (simp add: lookup_def sample_defs)
  have sv: "save (post1\<lparr>post_likes := ls\<rparr>) db1 = db1\<lparr>posts := [post1\<lparr>post_likes := ls\<rparr>]\<rparr>" for ls
    by (simp add: save_def db1_def post1_def)
  have ne: "user_id bob \<noteq> user_id alice" by (simp add: sample_defs)
  have pl: "post_likes post1 = [\<lparr>like_user = user_id alice\<rparr>]" by (simp add: post1_def)
  show ?thesis
    using u v l ne
      C2_like_at_most_once [of db1 LikePost env1 "\<lparr>req_user = user_id bob, param_post_id = post_id post1,
        param_comment_id = [], body_text = None,
        cookie_text = None, header_text = None, query_text = None\<rparr>" post1]
      C2_like_at_most_once [of db1 LikePost env1 "\<lparr>req_user = user_id alice, param_post_id = post_id post1,
        param_comment_id = [], body_text = None,
        cookie_text = None, header_text = None, query_text = None\<rparr>" post1]
    by (simp add: sv pl likes_unique_def)
qed

text \<open>
  Claim C3: \<^verbatim>\<open>GET /posts\<close> answers 200 with every stored post, each as often as it
  is stored, latest date first; the database is not written.
\<close>

theorem C3_get_posts_newest_first:
  "\<exists>ps. get_posts e r s = (Json 200 (PostsBody ps), s) \<and> mset ps = mset (posts s)
     \<and> sorted_wrt (\<lambda>a b. post_date b \<le> post_date a) ps"
  by (simp add: get_posts_def catch_err_def mset_sort_date_desc sorted_sort_date_desc)

text \<open>
  Claim C4: deleting a post or a comment that does not exist is answered 404. For a
  missing post on \<^verbatim>\<open>DELETE /posts/:id\<close> and for a missing comment on a stored
  post it is (lemmas \<open>delete_post_missing\<close>, \<open>delete_comment_found\<close>). For
  \<^verbatim>\<open>DELETE /posts/comment/:id/:cid\<close> on a well-formed post id that matches no post
  the handler reads \<^verbatim>\<open>post.comments\<close> before its own test of \<^verbatim>\<open>!post\<close>, the
  read throws, and the answer is 500. Run on the sample database.
\<close>

theorem C4_delete_comment_of_missing_post:
  "isValid env1 ''0000000000000000000000d9'' \<and> isValid env1 (comment_id comment1)
   \<and> lookup db1 ''0000000000000000000000d9'' = None
   \<and> delete_comment env1 \<lparr>req_user = user_id alice, param_post_id = ''0000000000000000000000d9'',
        param_comment_id = comment_id comment1, body_text = None,
        cookie_text = None, header_text = None, query_text = None\<rparr> db1
     = (Send 500 ''Server Error'', db1)"
  by (simp add: delete_comment_def route_defs lookup_def sample_defs)

text \<open>
  Claim C5: on a stored post, \<^verbatim>\<open>PUT /posts/unlike/:id\<close> answers 400
  \<^verbatim>\<open>Post has not yet been liked\<close> and writes nothing when the requester is not
  among the likes; otherwise it answers with, and stores, the likes with exactly one
  record removed, the requester's, every like of another user staying in place and in
  order.
\<close>

theorem C5_unlike:
  assumes "isValid e (param_post_id r)" and "lookup s (param_post_id r) = Some p"
  shows "(req_user r \<notin> set (map like_user (post_likes p)) \<longrightarrow>
           unlike_post e r s = (Json 400 (Msg ''Post has not yet been liked''), s))
       \<and> (req_user r \<in> set (map like_user (post_likes p)) \<longrightarrow>
           (\<exists>ls'. unlike_post e r s = (Json 200 (LikesBody ls'), save (p\<lparr>post_likes := ls'\<rparr>) s)
              \<and> lookup (snd (unlike_post e r s)) (param_post_id r) = Some (p\<lparr>post_likes := ls'\<rparr>)
              \<and> mset (post_likes p) = add_mset \<lparr>like_user = req_user r\<rparr> (mset ls')
              \<and> Suc (length ls') = length (post_likes p)
              \<and> filter (\<lambda>l. like_user l \<noteq> req_user r) ls'
                  = filter (\<lambda>l. like_user l \<noteq> req_user r) (post_likes p)))"
proof (intro conjI impI)
  assume "req_user r \<notin> set (map like_user (post_likes p))"
  then show "unlike_post e r s = (Json 400 (Msg ''Post has not yet been liked''), s)"
    using unlike_found[OF assms] by simp
next
  assume m: "req_user r \<in> set (map like_user (post_likes p))"
  let ?ls = "takeWhile (\<lambda>l. like_user l \<noteq> req_user r) (post_likes p)
               @ tl (dropWhile (\<lambda>l. like_user l \<noteq> req_user r) (post_likes p))"
  have run: "unlike_post e r s = (Json 200 (LikesBody ?ls), save (p\<lparr>post_likes := ?ls\<rparr>) s)"
    using unlike_found[OF assms] m unlike_splice[OF m] by simp
  have stored: "lookup (snd (unlike_post e r s)) (param_post_id r) = Some (p\<lparr>post_likes := ?ls\<rparr>)"
    using run assms(2) by (simp add: lookup_save_same)
  show "\<exists>ls'. unlike_post e r s = (Json 200 (LikesBody ls'), save (p\<lparr>post_likes := ls'\<rparr>) s)
              \<and> lookup (snd (unlike_post e r s)) (param_post_id r) = Some (p\<lparr>post_likes := ls'\<rparr>)
              \<and> mset (post_likes p) = add_mset \<lparr>like_user = req_user r\<rparr> (mset ls')
              \<and> Suc (length ls') = length (post_likes p)
              \<and> filter (\<lambda>l. like_user l \<noteq> req_user r) ls'
                  = filter (\<lambda>l. like_user l \<noteq> req_user r) (post_likes p)"
    using run stored remove_first_props[OF m] by blast
qed

theorem C5_unlike_witness:
  "isValid env1 (post_id post1) \<and> lookup db1 (post_id post1) = Some post1
   \<and> unlike_post env1 \<lparr>req_user = user_id bob, param_post_id = post_id post1,
        param_comment_id = [], body_text = None,
        cookie_text = None, header_text = None, query_text = None\<rparr> db1
       = (Json 400 (Msg ''Post has not yet been liked''), db1)
   \<and> (\<exists>ls'. unlike_post env1 \<lparr>req_user = user_id alice, param_post_id = post_id post1,
        param_comment_id = [], body_text = None,
        cookie_text = None, header_text = None, query_text = None\<rparr> db1
         = (Json 200 (LikesBody ls'), save (post1\<lparr>post_likes := ls'\<rparr>) db1)
       \<and> Suc (length ls') = length (post_likes post1))"
proof -
  have v: "isValid env1 (post_id post1)" by (simp add: sample_defs)
  have l: "lookup db1 (post_id post1) = Some post1" by (simp add: lookup_def sample_defs)
  have ne: "user_id bob \<noteq> user_id alice" by (simp add: sample_defs)
  have pl: "post_likes post1 = [\<lparr>like_user = user_id alice\<rparr>]" by (simp add: post1_def)
  have a: "unlike_post env1 \<lparr>req_user = user_id bob, param_post_id = post_id post1,
        param_comment_id = [], body_text = None,
        cookie_text = None, header_text = None, query_text = None\<rparr> db1
       = (Json 400 (Msg ''Post has not yet been liked''), db1)"
    using C5_unlike [of env1 "\<lparr>req_user = user_id bob, param_post_id = post_id post1,
        param_comment_id = [], body_text = None,
        cookie_text = None, header_text = None, query_text = None\<rparr>" db1 post1] v l ne pl by simp
  have b: "\<exists>ls'. unlike_post env1 \<lparr>req_user = user_id alice, param_post_id = post_id post1,
        param_comment_id = [], body_text = None,
        cookie_text = None, header_text = None, query_text = None\<rparr> db1
         = (Json 200 (LikesBody ls'), save (post1\<lparr>post_likes := ls'\<rparr>) db1)
       \<and> Suc (length ls') = length (post_likes post1)"
    using C5_unlike [of env1 "\<lparr>req_user = user_id alice, param_post_id = post_id post1,
        param_comment_id = [], body_text = None,
        cookie_text = None, header_text = None, query_text = None\<rparr>" db1 post1] v l pl by auto
  show ?thesis using v l a b by blast
qed

text \<open>
  Claim C6, as amended: for a stored post and a comment on it that the requester does
  not own, \<^verbatim>\<open>DELETE /posts/comment/:id/:cid\<close> answers 401 and writes nothing, and so
  does \<^verbatim>\<open>PUT /posts/comment/:id/:cid\<close> when the request passes the validation of
  \<^verbatim>\<open>text\<close>, that is when one of body, cookies, headers and query carries a text and
  none of them an empty one; when it does not pass, the PUT answers 400 with the
  validation errors, the validation coming before the ownership test, and writes nothing
  either. The ids of stored documents are ObjectIds, hence the two \<open>isValid\<close>
  hypotheses.
\<close>

theorem C6_comment_non_owner:
  assumes "isValid e (param_post_id r)" and "isValid e (param_comment_id r)"
    and "lookup s (param_post_id r) = Some p"
    and "find (\<lambda>c. comment_id c = param_comment_id r) (post_comments p) = Some c"
    and "comment_user c \<noteq> req_user r"
  shows "delete_comment e r s = (Json 401 (Msg ''User not authorized''), s)
       \<and> put_comment e r s
           = (if validationResult r = [] then (Json 401 (Msg ''User not authorized''), s)
              else (Json 400 (Errors (validationResult r)), s))
       \<and> (validationResult r = [] \<longleftrightarrow>
            body_text r \<noteq> Some [] \<and> cookie_text r \<noteq> Some [] \<and> header_text r \<noteq> Some []
            \<and> query_text r \<noteq> Some []
            \<and> \<not> (body_text r = None \<and> cookie_text r = None \<and> header_text r = None
                   \<and> query_text r = None))
       \<and> list_all (\<lambda>x. verr_msg x = ''Text is required'' \<and> verr_path x = ''text'')
             (validationResult r)"
proof -
  have del: "delete_comment e r s = (Json 401 (Msg ''User not authorized''), s)"
    using delete_comment_found[OF assms(1-3)] assms(4,5) by simp
  from findIndex_nth[OF assms(4)] obtain i where
    i: "findIndex (\<lambda>c. comment_id c = param_comment_id r) (post_comments p) = Some i"
       "post_comments p ! i = c" by blast
  have pass: "put_comment e r s = (Json 401 (Msg ''User not authorized''), s)"
    if ok: "validationResult r = []"
    using put_comment_found[OF assms(1-3) ok] i assms(5) by simp
  have fail: "put_comment e r s = (Json 400 (Errors (validationResult r)), s)"
    if "validationResult r \<noteq> []"
    using put_comment_invalid_text[OF assms(1,2) that] .
  have put: "put_comment e r s
           = (if validationResult r = [] then (Json 401 (Msg ''User not authorized''), s)
              else (Json 400 (Errors (validationResult r)), s))"
    using pass fail by simp
  show ?thesis
    using del put validation_ok[of r] validation_errors[of r] by blast
qed

theorem C6_comment_non_owner_witness:
  "isValid env1 (post_id post1) \<and> isValid env1 (comment_id comment1)
   \<and> lookup db1 (post_id post1) = Some post1
   \<and> find (\<lambda>c. comment_id c = comment_id comment1) (post_comments post1) = Some comment1
   \<and> comment_user comment1 \<noteq> user_id bob
   \<and> delete_comment env1 \<lparr>req_user = user_id bob, param_post_id = post_id post1,
        param_comment_id = comment_id comment1, body_text = Some ''mine'',
        cookie_text = None, header_text = None, query_text = None\<rparr> db1
      = (Json 401 (Msg ''User not authorized''), db1)
   \<and> put_comment env1 \<lparr>req_user = user_id bob, param_post_id = post_id post1,
        param_comment_id = comment_id comment1, body_text = Some ''mine'',
        cookie_text = None, header_text = None, query_text = None\<rparr> db1
      = (Json 401 (Msg ''User not authorized''), db1)
   \<and> put_comment env1 \<lparr>req_user = user_id bob, param_post_id = post_id post1,
        param_comment_id = comment_id comment1, body_text = None,
        cookie_text = None, header_text = None, query_text = Some ''mine''\<rparr> db1
      = (Json 401 (Msg ''User not authorized''), db1)"
proof -
  have v: "isValid env1 (post_id post1)" "isValid env1 (comment_id comment1)"
    by (simp_all add: sample_defs)
  have l: "lookup db1 (post_id post1) = Some post1" by (simp add: lookup_def sample_defs)
  have f: "find (\<lambda>c. comment_id c = comment_id comment1) (post_comments post1) = Some comment1"
    by (simp add: post1_def)
  have n: "comment_user comment1 \<noteq> user_id bob" by (simp add: sample_defs)
  show ?thesis
    using v l f n
      C6_comment_non_owner [of env1 "\<lparr>req_user = user_id bob, param_post_id = post_id post1,
        param_comment_id = comment_id comment1, body_text = Some ''mine'',
        cookie_text = None, header_text = None, query_text = None\<rparr>" db1 post1 comment1]
      C6_comment_non_owner [of env1 "\<lparr>req_user = user_id bob, param_post_id = post_id post1,
        param_comment_id = comment_id comment1, body_text = None,
        cookie_text = None, header_text = None, query_text = Some ''mine''\<rparr>" db1 post1 comment1]
    by simp
qed

text \<open>
  Claim C6 as stated fails on a PUT with an empty text: Bob, who does not own Alice's
  comment, is answered 400, not 401.
\<close>

theorem C6_counterexample:
  "isValid env1 (post_id post1) \<and> isValid env1 (comment_id comment1)
   \<and> lookup db1 (post_id post1) = Some post1
   \<and> find (\<lambda>c. comment_id c = comment_id comment1) (post_comments post1) = Some comment1
   \<and> comment_user comment1 \<noteq> user_id bob
   \<and> put_comment env1 \<lparr>req_user = user_id bob, param_post_id = post_id post1,
        param_comment_id = comment_id comment1, body_text = Some [],
        cookie_text = None, header_text = None, query_text = None\<rparr> db1
      = (Json 400 (Errors [\<lparr>verr_msg = ''Text is required'', verr_path = ''text'', verr_location = Body\<rparr>]), db1)"
  by (simp add: put_comment_def route_defs lookup_def validation_defs sample_defs)

text \<open>
  Claim C7: a well-formed post id that matches no post is answered 404 by
  \<^verbatim>\<open>PUT /posts/like/:id\<close>, \<^verbatim>\<open>PUT /posts/unlike/:id\<close> and
  \<^verbatim>\<open>POST /posts/comment/:id\<close>. None of the three handlers tests \<^verbatim>\<open>post\<close>
  before reading \<^verbatim>\<open>post.likes\<close> or \<^verbatim>\<open>post.comments\<close>: like and unlike end in
  their catch block with 500, and the comment handler's catch block throws itself. Run
  on the sample database.
\<close>

theorem C7_missing_post_is_not_404:
  "isValid env1 ''0000000000000000000000d9'' \<and> lookup db1 ''0000000000000000000000d9'' = None
   \<and> like_post env1 \<lparr>req_user = user_id bob, param_post_id = ''0000000000000000000000d9'',
        param_comment_id = [], body_text = None,
        cookie_text = None, header_text = None, query_text = None\<rparr> db1 = (Send 500 ''Server Error'', db1)
   \<and> unlike_post env1 \<lparr>req_user = user_id bob, param_post_id = ''0000000000000000000000d9'',
        param_comment_id = [], body_text = None,
        cookie_text = None, header_text = None, query_text = None\<rparr> db1 = (Send 500 ''Server Error'', db1)
   \<and> add_comment env1 \<lparr>req_user = user_id bob, param_post_id = ''0000000000000000000000d9'',
        param_comment_id = [], body_text = Some ''hi'',
        cookie_text = None, header_text = None, query_text = None\<rparr> db1 = (Rejected, db1)"
  by (simp add: like_post_def unlike_post_def add_comment_def route_defs lookup_def
      validation_defs sample_defs)




text \<open>
  Claim C9: the seven routes with \<^verbatim>\<open>checkObjectId('post_id')\<close> answer a post id
  that is not well-formed with 400 \<^verbatim>\<open>Invalid ID\<close>, whatever the database holds and
  without writing it; they are all the routes with a post id but
  \<^verbatim>\<open>POST /posts/comment/:id\<close>, which has no such check: there the request is
  answered by the validation (400 with the error list) or runs into the query, which
  rejects the id, and never gets \<^verbatim>\<open>Invalid ID\<close>.
\<close>

theorem C9_checkObjectId:
  assumes "\<not> isValid e (param_post_id r)"
  shows "get_post e r s = (Json 400 (Msg ''Invalid ID''), s)
       \<and> delete_post e r s = (Json 400 (Msg ''Invalid ID''), s)
       \<and> put_post e r s = (Json 400 (Msg ''Invalid ID''), s)
       \<and> like_post e r s = (Json 400 (Msg ''Invalid ID''), s)
       \<and> unlike_post e r s = (Json 400 (Msg ''Invalid ID''), s)
       \<and> delete_comment e r s = (Json 400 (Msg ''Invalid ID''), s)
       \<and> put_comment e r s = (Json 400 (Msg ''Invalid ID''), s)
       \<and> add_comment e r s
           = (if validationResult r \<noteq> [] then (Json 400 (Errors (validationResult r)), s)
              else (Rejected, s))
       \<and> fst (add_comment e r s) \<noteq> Json 400 (Msg ''Invalid ID'')"
proof -
  have ac: "add_comment e r s
           = (if validationResult r \<noteq> [] then (Json 400 (Errors (validationResult r)), s)
              else (Rejected, s))"
    using assms by (rule add_comment_invalid)
  then have "fst (add_comment e r s) \<noteq> Json 400 (Msg ''Invalid ID'')" by simp
  with ac invalid_post_id[OF assms, of s] show ?thesis by simp
qed

theorem C9_checkObjectId_witness:
  "\<not> isValid env1 ''not-an-id''
   \<and> like_post env1 \<lparr>req_user = user_id alice, param_post_id = ''not-an-id'',
        param_comment_id = [], body_text = Some ''hi'',
        cookie_text = None, header_text = None, query_text = None\<rparr> db1 = (Json 400 (Msg ''Invalid ID''), db1)
   \<and> add_comment env1 \<lparr>req_user = user_id alice, param_post_id = ''not-an-id'',
        param_comment_id = [], body_text = Some ''hi'',
        cookie_text = None, header_text = None, query_text = None\<rparr> db1 = (Rejected, db1)"
proof -
  have n: "\<not> isValid env1 ''not-an-id''" by (simp add: sample_defs)
  have ok: "validationResult \<lparr>req_user = user_id alice, param_post_id = ''not-an-id'',
        param_comment_id = [], body_text = Some ''hi'',
        cookie_text = None, header_text = None, query_text = None\<rparr> = []"
    by (simp add: validation_defs)
  show ?thesis
    using n ok C9_checkObjectId [of env1 "\<lparr>req_user = user_id alice, param_post_id = ''not-an-id'',
        param_comment_id = [], body_text = Some ''hi'',
        cookie_text = None, header_text = None, query_text = None\<rparr>" db1]
    by simp
qed

text \<open>
  Claim C10: a like, unlike, comment-add, comment-edit or comment-delete that succeeds
  (answers 200) leaves text, name, avatar, author and date of the addressed post as they
  were. A successful comment edit moreover leaves the likes as they were and changes the
  comments in one place only, the first comment with the requested id, of which it
  replaces the text, by \<^verbatim>\<open>req.body.text\<close>, and nothing else; where the schema
  requires a comment's text, that is a non-empty string.
\<close>

theorem C10_frame:
  assumes "rt \<in> {LikePost, UnlikePost, AddComment, DeleteComment, PutComment}"
    and "handle rt e r s = (Json 200 b, s')"
  shows "\<exists>p p'. lookup s (param_post_id r) = Some p \<and> lookup s' (param_post_id r) = Some p'
     \<and> post_text p' = post_text p \<and> post_name p' = post_name p
     \<and> post_avatar p' = post_avatar p \<and> post_user p' = post_user p
     \<and> post_date p' = post_date p
     \<and> (rt = PutComment \<longrightarrow>
          post_likes p' = post_likes p
        \<and> (comment_text_required e \<longrightarrow> (\<exists>t. body_text r = Some t \<and> t \<noteq> []))
        \<and> (\<exists>i. i < length (post_comments p)
             \<and> comment_id (post_comments p ! i) = param_comment_id r
             \<and> (\<forall>j<i. comment_id (post_comments p ! j) \<noteq> param_comment_id r)
             \<and> post_comments p'
                 = (post_comments p)[i := (post_comments p ! i)\<lparr>comment_text := body_text r\<rparr>]
             \<and> length (post_comments p') = length (post_comments p)
             \<and> (\<forall>j<length (post_comments p). j \<noteq> i \<longrightarrow>
                   post_comments p' ! j = post_comments p ! j)
             \<and> comment_text (post_comments p' ! i) = body_text r
             \<and> comment_id (post_comments p' ! i) = comment_id (post_comments p ! i)
             \<and> comment_user (post_comments p' ! i) = comment_user (post_comments p ! i)
             \<and> comment_name (post_comments p' ! i) = comment_name (post_comments p ! i)
             \<and> comment_avatar (post_comments p' ! i) = comment_avatar (post_comments p ! i)
             \<and> comment_date (post_comments p' ! i) = comment_date (post_comments p ! i)))"
proof -
  consider (likes) "rt \<noteq> PutComment"
      "\<exists>p ls. lookup s (param_post_id r) = Some p \<and> s' = save (p\<lparr>post_likes := ls\<rparr>) s"
    | (comments) "rt \<noteq> PutComment"
      "\<exists>p cs. lookup s (param_post_id r) = Some p \<and> s' = save (p\<lparr>post_comments := cs\<rparr>) s"
    | (edit) "rt = PutComment"
    using assms like_success[of e r s b s'] unlike_success[of e r s b s']
      add_comment_success[of e r s b s'] delete_comment_success[of e r s b s']
    by auto
  then show ?thesis
  proof cases
    case likes
    then obtain p ls where p: "lookup s (param_post_id r) = Some p"
      "s' = save (p\<lparr>post_likes := ls\<rparr>) s" by blast
    from frame_likes[OF p(1), of ls] p likes(1) show ?thesis by auto
  next
    case comments
    then obtain p cs where p: "lookup s (param_post_id r) = Some p"
      "s' = save (p\<lparr>post_comments := cs\<rparr>) s" by blast
    from frame_comments[OF p(1), of cs] p comments(1) show ?thesis by auto
  next
    case edit
    with assms(2) have run: "put_comment e r s = (Json 200 b, s')" by simp
    from put_comment_success[OF run] obtain p i where
      p: "lookup s (param_post_id r) = Some p"
      and i: "findIndex (\<lambda>c. comment_id c = param_comment_id r) (post_comments p) = Some i"
      and req: "comment_text_required e \<longrightarrow> (\<exists>t. body_text r = Some t \<and> t \<noteq> [])"
      and s': "s' = save (p\<lparr>post_comments :=
               (post_comments p)[i := (post_comments p ! i)\<lparr>comment_text := body_text r\<rparr>]\<rparr>) s"
      by blast
    let ?cs = "(post_comments p)[i := (post_comments p ! i)\<lparr>comment_text := body_text r\<rparr>]"
    let ?p' = "p\<lparr>post_comments := ?cs\<rparr>"
    from findIndex_Some[OF i] have
      il: "i < length (post_comments p)"
      and ic: "comment_id (post_comments p ! i) = param_comment_id r"
      and ifirst: "\<forall>j<i. comment_id (post_comments p ! j) \<noteq> param_comment_id r"
      by auto
    have st: "lookup s' (param_post_id r) = Some ?p'"
      using lookup_save_same[OF p, of ?p'] s' by simp
    have others: "\<forall>j<length (post_comments p). j \<noteq> i \<longrightarrow> ?cs ! j = post_comments p ! j"
      by simp
    have at: "?cs ! i = (post_comments p ! i)\<lparr>comment_text := body_text r\<rparr>"
      using il by simp
    have inner: "\<exists>i. i < length (post_comments p)
             \<and> comment_id (post_comments p ! i) = param_comment_id r
             \<and> (\<forall>j<i. comment_id (post_comments p ! j) \<noteq> param_comment_id r)
             \<and> post_comments ?p'
                 = (post_comments p)[i := (post_comments p ! i)\<lparr>comment_text := body_text r\<rparr>]
             \<and> length (post_comments ?p') = length (post_comments p)
             \<and> (\<forall>j<length (post_comments p). j \<noteq> i \<longrightarrow>
                   post_comments ?p' ! j = post_comments p ! j)
             \<and> comment_text (post_comments ?p' ! i) = body_text r
             \<and> comment_id (post_comments ?p' ! i) = comment_id (post_comments p ! i)
             \<and> comment_user (post_comments ?p' ! i) = comment_user (post_comments p ! i)
             \<and> comment_name (post_comments ?p' ! i) = comment_name (post_comments p ! i)
             \<and> comment_avatar (post_comments ?p' ! i) = comment_avatar (post_comments p ! i)
             \<and> comment_date (post_comments ?p' ! i) = comment_date (post_comments p ! i)"
      apply (rule exI[of _ i])
      using il ic ifirst others at by simp
    show ?thesis
      apply (rule exI[of _ p], rule exI[of _ ?p'])
      using p st inner req by simp
  qed
qed

theorem C10_frame_witness:
  "PutComment \<in> {LikePost, UnlikePost, AddComment, DeleteComment, PutComment}
   \<and> handle PutComment env1 \<lparr>req_user = user_id alice, param_post_id = post_id post1,
        param_comment_id = comment_id comment1, body_text = Some ''second'',
        cookie_text = None, header_text = None, query_text = None\<rparr> db1
      = (Json 200 (CommentsBody [comment1\<lparr>comment_text := Some ''second''\<rparr>]),
         db1\<lparr>posts := [post1\<lparr>post_comments := [comment1\<lparr>comment_text := Some ''second''\<rparr>]\<rparr>]\<rparr>)
   \<and> (\<exists>p p'. lookup db1 (post_id post1) = Some p
        \<and> lookup (db1\<lparr>posts := [post1\<lparr>post_comments := [comment1\<lparr>comment_text := Some ''second''\<rparr>]\<rparr>]\<rparr>)
            (post_id post1) = Some p'
        \<and> post_text p' = post_text p \<and> post_user p' = post_user p
        \<and> post_date p' = post_date p \<and> post_likes p' = post_likes p)"
proof -
  have run: "handle PutComment env1 \<lparr>req_user = user_id alice, param_post_id = post_id post1,
        param_comment_id = comment_id comment1, body_text = Some ''second'',
        cookie_text = None, header_text = None, query_text = None\<rparr> db1
      = (Json 200 (CommentsBody [comment1\<lparr>comment_text := Some ''second''\<rparr>]),
         db1\<lparr>posts := [post1\<lparr>post_comments := [comment1\<lparr>comment_text := Some ''second''\<rparr>]\<rparr>]\<rparr>)"
    by (simp add: put_comment_def route_defs validation_defs save_def sample_defs)
  have m: "PutComment \<in> {LikePost, UnlikePost, AddComment, DeleteComment, PutComment}" by simp
  from C10_frame[OF m run] have "\<exists>p p'. lookup db1 (post_id post1) = Some p
        \<and> lookup (db1\<lparr>posts := [post1\<lparr>post_comments := [comment1\<lparr>comment_text := Some ''second''\<rparr>]\<rparr>]\<rparr>)
            (post_id post1) = Some p'
        \<and> post_text p' = post_text p \<and> post_user p' = post_user p
        \<and> post_date p' = post_date p \<and> post_likes p' = post_likes p"
    by (simp del: ex_simps) blast
  with run m show ?thesis by blast
qed

end
